theory Spec2Isabelle
  imports Main "HOL-Library.Sublist"
begin

section \<open>notedown: the command-line conversion driver (main.py)\<close>

text \<open>
  A shallow embedding of \<^verbatim>\<open>notedown/main.py\<close>: the extension table
  \<^verbatim>\<open>ftdetect\<close>, the helper \<^verbatim>\<open>run\<close> and the driver \<^verbatim>\<open>cli\<close>.
  The program is Python 2.7 code (it uses the \<^verbatim>\<open>print\<close> statement and a
  \<^verbatim>\<open>with\<close> statement with two context managers). The readers, the writers and
  Knitr live in \<^verbatim>\<open>notedown/notedown.py\<close>, and the notebook runner in the package
  runipy; the driver only calls them, so they enter the model as the fields of an
  environment record, each returning either a value or the exception it raised.
\<close>

subsection \<open>Format detection\<close>

text \<open>
  The two format identifiers are the strings \<^verbatim>\<open>'notebook'\<close> and \<^verbatim>\<open>'markdown'\<close>:
  argparse's \<^verbatim>\<open>choices\<close> admits no other value for \<^verbatim>\<open>--from\<close> and \<^verbatim>\<open>--to\<close>, and
  \<^verbatim>\<open>ftdetect\<close> returns one of the two or \<^verbatim>\<open>None\<close>.
\<close>

datatype format = Notebook | Markdown

text \<open>
  \<^verbatim>\<open>str.rfind(c)\<close> for a single character: the highest index at which \<open>c\<close> occurs,
  or \<open>-1\<close>.
\<close>

fun rfind :: "char \<Rightarrow> string \<Rightarrow> int" where
  "rfind c [] = - 1"
| "rfind c (x # xs) =
     (let r = rfind c xs in if 0 \<le> r then r + 1 else if x = c then 0 else - 1)"

text \<open>
  \<^verbatim>\<open>os.path.splitext\<close> (posixpath, through \<^verbatim>\<open>genericpath._splitext\<close> with
  \<^verbatim>\<open>sep = '/'\<close>, no \<^verbatim>\<open>altsep\<close> and \<^verbatim>\<open>extsep = '.'\<close>):
  \<^verbatim>\<open>
    sepIndex = p.rfind(sep)
    dotIndex = p.rfind(extsep)
    if dotIndex > sepIndex:
        # skip all leading dots
        filenameIndex = sepIndex + 1
        while filenameIndex < dotIndex:
            if p[filenameIndex] != extsep:
                return p[:dotIndex], p[dotIndex:]
            filenameIndex += 1
    return p, ''
  \<close>
\<close>

function splitext_loop :: "string \<Rightarrow> nat \<Rightarrow> nat \<Rightarrow> string \<times> string" where
  "splitext_loop p filenameIndex dotIndex =
     (if filenameIndex < dotIndex then
        (if p ! filenameIndex \<noteq> CHR ''.'' then (take dotIndex p, drop dotIndex p)
         else splitext_loop p (Suc filenameIndex) dotIndex)
      else (p, []))"
  by pat_completeness auto
termination
  by (relation "measure (\<lambda>(p, filenameIndex, dotIndex). dotIndex - filenameIndex)") auto

definition splitext :: "string \<Rightarrow> string \<times> string" where
  "splitext p =
     (let sepIndex = rfind CHR ''/'' p;
          dotIndex = rfind CHR ''.'' p
      in if sepIndex < dotIndex then splitext_loop p (nat (sepIndex + 1)) (nat dotIndex)
         else (p, []))"

definition md_exts :: "string list" where
  "md_exts = [''.md'', ''.markdown'', ''.mkd'', ''.mdown'', ''.mkdn'', ''.Rmd'']"

definition nb_exts :: "string list" where
  "nb_exts = [''.ipynb'']"

definition ftdetect :: "string \<Rightarrow> format option" where
  "ftdetect filename =
     (let extension = snd (splitext filename)
      in if extension \<in> set md_exts then Some Markdown
         else if extension \<in> set nb_exts then Some Notebook
         else None)"

subsection \<open>Command-line arguments\<close>

text \<open>
  A file object as the driver sees it. \<^verbatim>\<open>argparse.FileType\<close> turns a file name into
  an open file and the argument \<^verbatim>\<open>-\<close>, or no argument at all, into the standard
  stream; \<open>TempFile\<close> is a file object made elsewhere (what \<^verbatim>\<open>Knitr.knit\<close>
  returns). \<open>handle_name\<close> is the attribute \<^verbatim>\<open>.name\<close>.
\<close>

datatype handle = Stdin | Stdout | InFile string | OutFile string | TempFile string

fun handle_name :: "handle \<Rightarrow> string" where
  "handle_name Stdin = ''<stdin>''"
| "handle_name Stdout = ''<stdout>''"
| "handle_name (InFile n) = n"
| "handle_name (OutFile n) = n"
| "handle_name (TempFile n) = n"

text \<open>
  The namespace \<^verbatim>\<open>args\<close> that \<^verbatim>\<open>parser.parse_args()\<close> returns, one field per
  \<^verbatim>\<open>dest\<close>. \<open>args_knit\<close> is \<open>None\<close> without \<^verbatim>\<open>--knit\<close>, the constant
  \<^verbatim>\<open>'eval=FALSE'\<close> for a bare \<^verbatim>\<open>--knit\<close> and the given string otherwise;
  \<open>args_magic\<close> is \<open>True\<close> unless \<^verbatim>\<open>--nomagic\<close> is given. The last field is
  not in the namespace: it keeps the one thing about the command line that the
  namespace forgets and that parsing acts on, whether \<^verbatim>\<open>--output FILE\<close> stands before
  the input file.
\<close>

record args =
  args_input_file :: handle
  args_output :: handle
  args_informat :: "format option"
  args_outformat :: "format option"
  args_reverse :: bool
  args_run :: bool
  args_strip_outputs :: bool
  args_precode :: "string list"
  args_knit :: "string option"
  args_rmagic :: bool
  args_magic :: bool
  args_examples :: bool
  args_figures :: bool
  args_template :: "string option"
  args_output_first :: bool

text \<open>
  Python's \<^verbatim>\<open>x or y\<close> where \<open>x\<close> is \<^verbatim>\<open>None\<close> or a format string (both format
  strings are non-empty, hence true), and the truth value of an optional string
  (\<^verbatim>\<open>None\<close> and the empty string are false).
\<close>

definition py_or :: "'a option \<Rightarrow> 'a option \<Rightarrow> 'a option" where
  "py_or x y = (case x of Some v \<Rightarrow> Some v | None \<Rightarrow> y)"

definition or_default :: "'a option \<Rightarrow> 'a \<Rightarrow> 'a" where
  "or_default x d = (case x of Some v \<Rightarrow> v | None \<Rightarrow> d)"

definition truthy :: "string option \<Rightarrow> bool" where
  "truthy v = (case v of None \<Rightarrow> False | Some s \<Rightarrow> s \<noteq> [])"

subsection \<open>Readers and writers\<close>

text \<open>
  \<^verbatim>\<open>sep.join(xs)\<close>: the items in order, with \<open>sep\<close> before every item but the
  first.
\<close>

fun join_loop :: "string \<Rightarrow> string \<Rightarrow> string list \<Rightarrow> string" where
  "join_loop sep acc [] = acc"
| "join_loop sep acc (x # xs) = join_loop sep (acc @ sep @ x) xs"

definition py_join :: "string \<Rightarrow> string list \<Rightarrow> string" where
  "py_join sep xs = (case xs of [] \<Rightarrow> [] | x # rest \<Rightarrow> join_loop sep x rest)"


datatype template = markdown_template | markdown_figure_template | custom_template string

text \<open>
  A reader or writer object is its class together with the constructor arguments the
  driver passes: \<open>MarkdownReader precode magic\<close>, \<open>JSONWriter strip_outputs\<close>,
  \<open>MarkdownWriter template_file strip_outputs write_outputs\<close>.
\<close>

datatype reader = JSONReader | MarkdownReader string bool

datatype writer = JSONWriter bool | MarkdownWriter template bool bool

fun reader_format :: "reader \<Rightarrow> format" where
  "reader_format JSONReader = Notebook"
| "reader_format (MarkdownReader precode magic) = Markdown"

fun writer_format :: "writer \<Rightarrow> format" where
  "writer_format (JSONWriter strip) = Notebook"
| "writer_format (MarkdownWriter t strip outs) = Markdown"

text \<open>Lines 164-165: \<^verbatim>\<open>if args.rmagic: args.precode.append(r"%load_ext rmagic")\<close>.\<close>

definition rmagic_precode :: "args \<Rightarrow> args" where
  "rmagic_precode a =
     (if args_rmagic a then a\<lparr>args_precode := args_precode a @ [''%load_ext rmagic'']\<rparr>
      else a)"

text \<open>Lines 167-172: the template file.\<close>

definition template_file :: "args \<Rightarrow> template" where
  "template_file a =
     (let t = (if args_figures a then markdown_figure_template else markdown_template)
      in case args_template a of
           None \<Rightarrow> t
         | Some path \<Rightarrow> if path \<noteq> [] then custom_template path else t)"

text \<open>Lines 176-186: the dictionaries \<^verbatim>\<open>readers\<close> and \<^verbatim>\<open>writers\<close>, applied to a key.\<close>

definition readers :: "args \<Rightarrow> format \<Rightarrow> reader" where
  "readers a f =
     (case f of
        Notebook \<Rightarrow> JSONReader
      | Markdown \<Rightarrow> MarkdownReader (py_join [CHR 0x0A] (args_precode a)) (args_magic a))"

definition writers :: "args \<Rightarrow> format \<Rightarrow> writer" where
  "writers a f =
     (case f of
        Notebook \<Rightarrow> JSONWriter (args_strip_outputs a)
      | Markdown \<Rightarrow> MarkdownWriter (template_file a) (args_strip_outputs a) (args_figures a))"

text \<open>Lines 188-190: \<^verbatim>\<open>--reverse\<close> overwrites both format arguments.\<close>

definition apply_reverse :: "args \<Rightarrow> args" where
  "apply_reverse a =
     (if args_reverse a
      then a\<lparr>args_informat := Some Notebook, args_outformat := Some Markdown\<rparr>
      else a)"

text \<open>
  Lines 192-193:
  \<^verbatim>\<open>
    informat = args.informat or ftdetect(args.input_file.name) or 'markdown'
    outformat = args.outformat or ftdetect(args.output.name) or 'notebook'
  \<close>
\<close>

definition informat :: "args \<Rightarrow> format" where
  "informat a =
     or_default (py_or (args_informat a) (ftdetect (handle_name (args_input_file a)))) Markdown"

definition outformat :: "args \<Rightarrow> format" where
  "outformat a =
     or_default (py_or (args_outformat a) (ftdetect (handle_name (args_output a)))) Notebook"

subsection \<open>The outside world\<close>

text \<open>
  An exception. \<open>TypeError\<close> is the interpreter's own; \<open>ToolError\<close> stands for
  whatever a collaborator raises (Knitr, a reader, the notebook runner, a writer).
\<close>

datatype error = TypeError string | ToolError string

text \<open>
  The operand of a \<^verbatim>\<open>raise\<close> statement and what Python 2.7 does with it: an
  exception is raised as it is; a string is not an exception (string exceptions are
  gone since Python 2.6), and the statement raises this \<^verbatim>\<open>TypeError\<close> instead.
\<close>

datatype raised = PyStr string | PyException error

fun py_raise :: "raised \<Rightarrow> error" where
  "py_raise (PyException e) = e"
| "py_raise (PyStr s) =
     TypeError ''exceptions must be old-style classes or derived from BaseException, not str''"

text \<open>
  Everything the driver does not decide itself:
  \<^item> \<open>can_open\<close>: whether \<^verbatim>\<open>open\<close> succeeds on a named file;
  \<^item> \<open>isatty\<close>: the method \<^verbatim>\<open>isatty()\<close> of a file object;
  \<^item> \<open>knitr_knit\<close>: \<^verbatim>\<open>Knitr().knit(input_file, opts_chunk=...)\<close>, a new file object
    or an exception;
  \<^item> \<open>reader_read\<close>: \<^verbatim>\<open>reader.read(ip)\<close>, a notebook or an exception;
  \<^item> \<open>runipy_available\<close>: whether \<^verbatim>\<open>from runipy.notebook_runner import
    NotebookRunner\<close> succeeds;
  \<^item> \<open>run_notebook\<close>: \<^verbatim>\<open>NotebookRunner(notebook).run_notebook()\<close>, which changes the
    notebook in place (here: returns the changed notebook) or raises;
  \<^item> \<open>writer_write\<close>: \<^verbatim>\<open>writer.write(notebook, op)\<close>, which returns nothing or
    raises.
\<close>

record 'nb env =
  can_open :: "handle \<Rightarrow> bool"
  isatty :: "handle \<Rightarrow> bool"
  knitr_knit :: "handle \<Rightarrow> string \<Rightarrow> error + handle"
  reader_read :: "reader \<Rightarrow> handle \<Rightarrow> error + 'nb"
  runipy_available :: bool
  run_notebook :: "'nb \<Rightarrow> error + 'nb"
  writer_write :: "writer \<Rightarrow> 'nb \<Rightarrow> handle \<Rightarrow> error option"

text \<open>
  What the program does to the outside world, in the order it does it. A message is
  the examples or the help on standard output, or the usage line and error message
  that argparse writes to standard error when it rejects the command line.
\<close>

datatype message = ExamplesText | HelpText | ArgumentError

datatype 'nb event =
    Open handle
  | Print message
  | Knit handle string
  | Read reader handle
  | Run 'nb
  | Write writer 'nb handle
  | Close handle

text \<open>
  How the program ends: \<^verbatim>\<open>cli\<close> returns, \<^verbatim>\<open>exit()\<close> or argparse ends the process
  with a status, or an exception leaves \<^verbatim>\<open>cli\<close>.
\<close>

datatype outcome = Returned | Exit nat | Raised error

subsection \<open>run\<close>

text \<open>
  \<^verbatim>\<open>
    def run(notebook):
        try:
            from runipy.notebook_runner import NotebookRunner
        except ImportError:
            raise('You need runipy installed to run notebooks!'
                  'try `pip install runipy`')
        runner = NotebookRunner(notebook)
        runner.run_notebook()
  \<close>
  The two adjacent string literals are one string; the operand of \<^verbatim>\<open>raise\<close> is that
  string in parentheses.
\<close>

definition install_hint :: string where
  "install_hint = ''You need runipy installed to run notebooks!'' @ ''try `pip install runipy`''"

definition run :: "'nb env \<Rightarrow> 'nb \<Rightarrow> error + 'nb" where
  "run env notebook =
     (if runipy_available env then run_notebook env notebook
      else Inl (py_raise (PyStr install_hint)))"

subsection \<open>cli\<close>

text \<open>
  \<^verbatim>\<open>parser.parse_args()\<close>, as far as files go. Both file arguments have
  \<^verbatim>\<open>type=argparse.FileType(mode)\<close>: argparse converts the arguments in the order of
  the command line, and the conversion of a file name opens the file. A file that
  cannot be opened makes argparse print its error and end the program with status 2;
  the files opened before it stay open. The standard streams (no argument, or
  \<^verbatim>\<open>-\<close>) are open already and are not opened again.
\<close>

fun named_file :: "handle \<Rightarrow> bool" where
  "named_file (InFile n) = True"
| "named_file (OutFile n) = True"
| "named_file h = False"

definition file_arguments :: "args \<Rightarrow> handle list" where
  "file_arguments a =
     filter named_file
       (if args_output_first a then [args_output a, args_input_file a]
        else [args_input_file a, args_output a])"

definition files_open :: "'nb env \<Rightarrow> args \<Rightarrow> bool" where
  "files_open env a = list_all (can_open env) (file_arguments a)"

definition parse_args :: "'nb env \<Rightarrow> args \<Rightarrow> 'nb event list \<times> args option" where
  "parse_args env a =
     (if files_open env a then (map Open (file_arguments a), Some a)
      else (map Open (takeWhile (can_open env) (file_arguments a)) @ [Print ArgumentError],
            None))"

text \<open>
  Lines 200-204:
  \<^verbatim>\<open>
    with input_file as ip, args.output as op:
        notebook = reader.read(ip)
        if args.run:
            run(notebook)
        writer.write(notebook, op)
  \<close>
  \<open>write_step\<close> and \<open>with_body\<close> are the body; \<open>with_block\<close> adds what the
  \<^verbatim>\<open>with\<close> statement does when the body is left, normally or by an exception: it
  closes \<open>op\<close>, then \<open>ip\<close>, and lets the exception pass.
\<close>

definition write_step ::
  "'nb env \<Rightarrow> writer \<Rightarrow> handle \<Rightarrow> 'nb event list \<Rightarrow> 'nb \<Rightarrow> 'nb event list \<times> outcome" where
  "write_step env wr op evs notebook =
     (case writer_write env wr notebook op of
        Some e \<Rightarrow> (evs @ [Write wr notebook op], Raised e)
      | None \<Rightarrow> (evs @ [Write wr notebook op], Returned))"

definition with_body ::
  "'nb env \<Rightarrow> args \<Rightarrow> reader \<Rightarrow> writer \<Rightarrow> handle \<Rightarrow> handle \<Rightarrow> 'nb event list \<times> outcome" where
  "with_body env a rd wr ip op =
     (case reader_read env rd ip of
        Inl e \<Rightarrow> ([Read rd ip], Raised e)
      | Inr notebook \<Rightarrow>
          if args_run a then
            (case run env notebook of
               Inl e \<Rightarrow> ([Read rd ip, Run notebook], Raised e)
             | Inr notebook' \<Rightarrow> write_step env wr op [Read rd ip, Run notebook] notebook')
          else write_step env wr op [Read rd ip] notebook)"

definition with_block ::
  "'nb env \<Rightarrow> args \<Rightarrow> reader \<Rightarrow> writer \<Rightarrow> handle \<Rightarrow> handle \<Rightarrow> 'nb event list \<times> outcome" where
  "with_block env a rd wr ip op =
     (case with_body env a rd wr ip op of
        (evs, res) \<Rightarrow> (evs @ [Close op, Close ip], res))"

text \<open>
  Lines 164-204, once the input stream \<open>input_file\<close> is known (the file of the
  command line, or what Knitr returned): the precode of \<^verbatim>\<open>--rmagic\<close>, the template,
  the two dictionaries, \<^verbatim>\<open>--reverse\<close>, the two formats, the reader and the writer,
  and the \<^verbatim>\<open>with\<close> block. The formats are read from \<^verbatim>\<open>args.input_file.name\<close> and
  \<^verbatim>\<open>args.output.name\<close>, never from \<open>input_file\<close>.
\<close>

definition convert :: "'nb env \<Rightarrow> args \<Rightarrow> handle \<Rightarrow> 'nb event list \<times> outcome" where
  "convert env a input_file =
     (let a1 = rmagic_precode a;
          rds = readers a1;
          wrs = writers a1;
          a2 = apply_reverse a1;
          rd = rds (informat a2);
          wr = wrs (outformat a2)
      in with_block env a2 rd wr input_file (args_output a2))"

text \<open>
  \<^verbatim>\<open>exit()\<close> is the \<^verbatim>\<open>Quitter\<close> object that the module \<^verbatim>\<open>site\<close> installs as a
  builtin: called without an argument, it closes \<^verbatim>\<open>sys.stdin\<close> and raises
  \<^verbatim>\<open>SystemExit(None)\<close>, which ends the process with status 0. \<open>evs\<close> is what
  happened before the call.
\<close>

definition py_exit :: "'nb event list \<Rightarrow> 'nb event list \<times> outcome" where
  "py_exit evs = (evs @ [Close Stdin], Exit 0)"

text \<open>
  Lines 148-162, then the rest: \<^verbatim>\<open>--examples\<close>, the terminal check, Knitr.
\<close>

definition cli_body :: "'nb env \<Rightarrow> args \<Rightarrow> 'nb event list \<times> outcome" where
  "cli_body env a =
     (if args_examples a then py_exit [Print ExamplesText]
      else if isatty env (args_input_file a) then py_exit [Print HelpText]
      else
        (case args_knit a of
           None \<Rightarrow> convert env a (args_input_file a)
         | Some opts_chunk \<Rightarrow>
             if opts_chunk \<noteq> [] then
               (case knitr_knit env (args_input_file a) opts_chunk of
                  Inl e \<Rightarrow> ([Knit (args_input_file a) opts_chunk], Raised e)
                | Inr input_file \<Rightarrow>
                    (case convert env a input_file of
                       (evs, res) \<Rightarrow> (Knit (args_input_file a) opts_chunk # evs, res)))
             else convert env a (args_input_file a)))"

definition cli :: "'nb env \<Rightarrow> args \<Rightarrow> 'nb event list \<times> outcome" where
  "cli env a =
     (case parse_args env a of
        (evs, None) \<Rightarrow> (evs, Exit 2)
      | (evs, Some parsed) \<Rightarrow>
          (case cli_body env parsed of (evs', res) \<Rightarrow> (evs @ evs', res)))"

subsection \<open>Reading a run\<close>

text \<open>
  The conversion steps among the events of a run, each with the format of the reader
  or writer that took it, and the sequence of steps the arguments ask for.
\<close>

datatype step = KnitStep | ReadStep format | RunStep | WriteStep format

fun steps_of :: "'nb event list \<Rightarrow> step list" where
  "steps_of [] = []"
| "steps_of (Knit h opts # evs) = KnitStep # steps_of evs"
| "steps_of (Read rd h # evs) = ReadStep (reader_format rd) # steps_of evs"
| "steps_of (Run nb # evs) = RunStep # steps_of evs"
| "steps_of (Write wr nb h # evs) = WriteStep (writer_format wr) # steps_of evs"
| "steps_of (ev # evs) = steps_of evs"

definition conversion_plan :: "bool \<Rightarrow> format \<Rightarrow> format \<Rightarrow> step list" where
  "conversion_plan do_run f t =
     [ReadStep f] @ (if do_run then [RunStep] else []) @ [WriteStep t]"

definition plan :: "args \<Rightarrow> step list" where
  "plan a =
     (if truthy (args_knit a) then [KnitStep] else []) @
     conversion_plan (args_run a) (informat (apply_reverse a)) (outformat (apply_reverse a))"

text \<open>The handles a run closes, in order.\<close>

fun closed_handles :: "'nb event list \<Rightarrow> handle list" where
  "closed_handles [] = []"
| "closed_handles (Close h # evs) = h # closed_handles evs"
| "closed_handles (ev # evs) = closed_handles evs"

text \<open>The handles a run opens.\<close>

fun opened_handles :: "'nb event list \<Rightarrow> handle list" where
  "opened_handles [] = []"
| "opened_handles (Open h # evs) = h # opened_handles evs"
| "opened_handles (ev # evs) = opened_handles evs"

subsection \<open>Concrete command lines and worlds\<close>

text \<open>
  The values argparse gives when the command line is empty (the \<^verbatim>\<open>default\<close> of
  every \<^verbatim>\<open>add_argument\<close>, \<open>False\<close> for a \<^verbatim>\<open>store_true\<close> flag and \<open>True\<close> for
  the \<^verbatim>\<open>store_false\<close> flag \<^verbatim>\<open>--nomagic\<close>).
\<close>

definition default_args :: args where
  "default_args =
     \<lparr>args_input_file = Stdin, args_output = Stdout,
      args_informat = None, args_outformat = None,
      args_reverse = False, args_run = False, args_strip_outputs = False,
      args_precode = [], args_knit = None, args_rmagic = False, args_magic = True,
      args_examples = False, args_figures = False, args_template = None,
      args_output_first = False\<rparr>"

text \<open>
  A world in which every file opens, nothing is a terminal, and every collaborator
  succeeds; a notebook is represented by a string.
\<close>

definition demo_env :: "string env" where
  "demo_env =
     \<lparr>can_open = (\<lambda>h. True),
      isatty = (\<lambda>h. False),
      knitr_knit = (\<lambda>h opts. Inr (TempFile ''knitted.md'')),
      reader_read = (\<lambda>rd h. Inr ''cells''),
      runipy_available = True,
      run_notebook = (\<lambda>nb. Inr (nb @ ''+outputs'')),
      writer_write = (\<lambda>wr nb h. None)\<rparr>"

section \<open>Properties\<close>

subsection \<open>Helper lemmas\<close>

lemma rfind_absent: "c \<notin> set xs \<Longrightarrow> rfind c xs = - 1"
  by (induction xs) (auto simp: Let_def)

lemma rfind_bounds: "- 1 \<le> rfind c xs \<and> rfind c xs < int (length xs)"
  by (induction xs) (auto simp: Let_def)

lemma rfind_last: "c \<notin> set ys \<Longrightarrow> rfind c (xs @ c # ys) = int (length xs)"
  by (induction xs) (auto simp: Let_def rfind_absent)

lemma rfind_append_absent: "c \<notin> set ys \<Longrightarrow> rfind c (xs @ ys) = rfind c xs"
  by (induction xs) (auto simp: Let_def rfind_absent)

lemma splitext_loop_eq:
  "splitext_loop p i d =
     (if \<exists>j. i \<le> j \<and> j < d \<and> p ! j \<noteq> CHR ''.'' then (take d p, drop d p) else (p, []))"
proof (induction p i d rule: splitext_loop.induct)
  case (1 p i d)
  show ?case
  proof (cases "i < d")
    case False
    then show ?thesis by (auto simp: splitext_loop.simps [of p i d])
  next
    case True
    show ?thesis
    proof (cases "p ! i \<noteq> CHR ''.''")
      case True
      with \<open>i < d\<close> have "\<exists>j. i \<le> j \<and> j < d \<and> p ! j \<noteq> CHR ''.''"
        by blast
      with True \<open>i < d\<close> show ?thesis
        by (simp add: splitext_loop.simps [of p i d])
    next
      case False
      have "(\<exists>j. i \<le> j \<and> j < d \<and> p ! j \<noteq> CHR ''.'') \<longleftrightarrow>
            (\<exists>j. Suc i \<le> j \<and> j < d \<and> p ! j \<noteq> CHR ''.'')"
        using False by (metis Suc_leI Suc_leD le_neq_implies_less)
      with False \<open>i < d\<close> "1.IH" show ?thesis
        by (simp add: splitext_loop.simps [of p i d])
    qed
  qed
qed

lemma splitext_file_name:
  assumes dir: "dir = [] \<or> last dir = CHR ''/''"
    and base: "CHR ''/'' \<notin> set base" "\<exists>c \<in> set base. c \<noteq> CHR ''.''"
    and ext: "CHR ''/'' \<notin> set e" "CHR ''.'' \<notin> set e"
  shows "splitext (dir @ base @ CHR ''.'' # e) = (dir @ base, CHR ''.'' # e)"
proof -
  let ?p = "dir @ base @ CHR ''.'' # e"
  have dot: "rfind CHR ''.'' ?p = int (length (dir @ base))"
    using rfind_last [of "CHR ''.''" e "dir @ base"] ext by simp
  have "rfind CHR ''/'' ?p = rfind CHR ''/'' dir"
    using rfind_append_absent [of "CHR ''/''" "base @ CHR ''.'' # e" dir] base ext by simp
  moreover have "rfind CHR ''/'' dir = int (length dir) - 1"
  proof (cases "dir = []")
    case True
    then show ?thesis by simp
  next
    case False
    with dir have "dir = butlast dir @ [CHR ''/'']"
      by (metis append_butlast_last_id)
    then have "rfind CHR ''/'' dir = int (length (butlast dir))"
      using rfind_last [of "CHR ''/''" "[]" "butlast dir"] by simp
    with False show ?thesis by (simp add: of_nat_diff Suc_leI)
  qed
  ultimately have sep: "rfind CHR ''/'' ?p = int (length dir) - 1"
    by simp
  obtain k where k: "k < length base" "base ! k \<noteq> CHR ''.''"
    using base(2) by (auto simp: in_set_conv_nth)
  then have "length dir \<le> length dir + k \<and> length dir + k < length (dir @ base) \<and>
             ?p ! (length dir + k) \<noteq> CHR ''.''"
    by (simp add: nth_append)
  then have ex: "\<exists>j. length dir \<le> j \<and> j < length (dir @ base) \<and> ?p ! j \<noteq> CHR ''.''"
    by blast
  have "splitext ?p = splitext_loop ?p (length dir) (length (dir @ base))"
    using k(1)
    by (simp add: splitext_def dot sep Let_def nat_add_distrib del: splitext_loop.simps)
  also have "\<dots> = (take (length (dir @ base)) ?p, drop (length (dir @ base)) ?p)"
    using ex by (simp only: splitext_loop_eq if_True)
  also have "\<dots> = (dir @ base, CHR ''.'' # e)"
    by simp
  finally show ?thesis .
qed

lemma splitext_no_dot:
  assumes "CHR ''.'' \<notin> set p"
  shows "splitext p = (p, [])"
  using assms rfind_bounds [of "CHR ''/''" p] by (simp add: splitext_def rfind_absent)




lemmas format_defs = informat_def outformat_def apply_reverse_def py_or_def or_default_def

lemmas run_defs =
  cli_def parse_args_def cli_body_def convert_def with_block_def with_body_def write_step_def
  run_def py_exit_def file_arguments_def files_open_def rmagic_precode_def readers_def writers_def template_file_def py_join_def
  ftdetect_def splitext_def md_exts_def nb_exts_def install_hint_def Let_def

lemma steps_of_append: "steps_of (xs @ ys) = steps_of xs @ steps_of ys"
  by (induction xs rule: steps_of.induct) auto

lemma closed_handles_append:
  "closed_handles (xs @ ys) = closed_handles xs @ closed_handles ys"
  by (induction xs rule: closed_handles.induct) auto

lemma opened_handles_append:
  "opened_handles (xs @ ys) = opened_handles xs @ opened_handles ys"
  by (induction xs rule: opened_handles.induct) auto

lemma steps_of_opened: "steps_of (map Open hs) = []"
  by (induction hs) simp_all

lemma closed_handles_opened: "closed_handles (map Open hs) = []"
  by (induction hs) simp_all

lemma opened_handles_opened: "opened_handles (map Open hs) = hs"
  by (induction hs) simp_all

lemma reader_format_readers: "reader_format (readers a f) = f"
  by (cases f) (simp_all add: readers_def)

lemma writer_format_writers: "writer_format (writers a f) = f"
  by (cases f) (simp_all add: writers_def)

lemma informat_rmagic:
  "informat (apply_reverse (rmagic_precode a)) = informat (apply_reverse a)"
  by (simp add: informat_def apply_reverse_def rmagic_precode_def)

lemma outformat_rmagic:
  "outformat (apply_reverse (rmagic_precode a)) = outformat (apply_reverse a)"
  by (simp add: outformat_def apply_reverse_def rmagic_precode_def)

lemma args_run_convert: "args_run (apply_reverse (rmagic_precode a)) = args_run a"
  by (simp add: apply_reverse_def rmagic_precode_def)

lemma args_output_convert: "args_output (apply_reverse (rmagic_precode a)) = args_output a"
  by (simp add: apply_reverse_def rmagic_precode_def)

text \<open>The \<^verbatim>\<open>with\<close> block: its steps, its outcome, and what it closes.\<close>

lemma with_body_steps:
  "prefix (steps_of (fst (with_body env a rd wr ip op)))
     (conversion_plan (args_run a) (reader_format rd) (writer_format wr)) \<and>
   (snd (with_body env a rd wr ip op) = Returned \<longrightarrow>
      steps_of (fst (with_body env a rd wr ip op)) =
        conversion_plan (args_run a) (reader_format rd) (writer_format wr))"
  by (simp add: with_body_def write_step_def conversion_plan_def
      split: sum.splits option.splits)

lemma with_block_steps:
  "steps_of (fst (with_block env a rd wr ip op)) =
     steps_of (fst (with_body env a rd wr ip op))"
  by (simp add: with_block_def steps_of_append split: prod.splits)

lemma with_block_outcome:
  "snd (with_block env a rd wr ip op) = snd (with_body env a rd wr ip op)"
  by (simp add: with_block_def split: prod.splits)

lemma with_block_closes:
  "closed_handles (fst (with_block env a rd wr ip op)) = [op, ip]"
  by (simp add: with_block_def with_body_def write_step_def closed_handles_append
      split: prod.splits sum.splits option.splits if_splits)

lemma convert_steps:
  "prefix (steps_of (fst (convert env a h)))
     (conversion_plan (args_run a) (informat (apply_reverse a)) (outformat (apply_reverse a))) \<and>
   (snd (convert env a h) = Returned \<longrightarrow>
      steps_of (fst (convert env a h)) =
        conversion_plan (args_run a) (informat (apply_reverse a))
          (outformat (apply_reverse a)))"
  using with_body_steps [of env "apply_reverse (rmagic_precode a)"
      "readers (rmagic_precode a) (informat (apply_reverse a))"
      "writers (rmagic_precode a) (outformat (apply_reverse a))" h "args_output a"]
  by (simp add: convert_def Let_def with_block_steps with_block_outcome informat_rmagic
      outformat_rmagic args_run_convert args_output_convert reader_format_readers
      writer_format_writers)

lemma convert_closes: "closed_handles (fst (convert env a h)) = [args_output a, h]"
  by (simp add: convert_def Let_def with_block_closes args_output_convert)

lemma cli_body_steps:
  assumes "\<not> args_examples a" and "\<not> isatty env (args_input_file a)"
  shows "prefix (steps_of (fst (cli_body env a))) (plan a) \<and>
         (snd (cli_body env a) = Returned \<longrightarrow> steps_of (fst (cli_body env a)) = plan a)"
proof (cases "args_knit a")
  case None
  then show ?thesis
    using assms convert_steps [of env a "args_input_file a"]
    by (simp add: cli_body_def plan_def truthy_def)
next
  case (Some opts)
  show ?thesis
  proof (cases "opts = []")
    case True
    then show ?thesis
      using assms Some convert_steps [of env a "args_input_file a"]
      by (simp add: cli_body_def plan_def truthy_def)
  next
    case False
    show ?thesis
    proof (cases "knitr_knit env (args_input_file a) opts")
      case (Inl e)
      then show ?thesis
        using assms Some False by (simp add: cli_body_def plan_def truthy_def)
    next
      case (Inr h)
      then show ?thesis
        using assms Some False convert_steps [of env a h]
        by (simp add: cli_body_def plan_def truthy_def case_prod_beta)
    qed
  qed
qed

lemma cli_parsed:
  assumes "snd (parse_args env a) = Some a"
  shows "cli env a =
           (map Open (file_arguments a) @ fst (cli_body env a), snd (cli_body env a))"
  using assms
  by (simp add: cli_def parse_args_def case_prod_beta split: if_splits)

lemma parse_args_ok: "snd (parse_args env a) = Some a \<longleftrightarrow> files_open env a"
  by (simp add: parse_args_def)

lemma cli_not_parsed:
  assumes "\<not> files_open env a"
  shows "cli env a =
           (map Open (takeWhile (can_open env) (file_arguments a)) @ [Print ArgumentError],
            Exit 2)"
  using assms by (simp add: cli_def parse_args_def)

text \<open>The events of a run, and the reader and the writer they name.\<close>

lemma with_body_events:
  "ev \<in> set (fst (with_body env a rd wr ip op)) \<Longrightarrow>
     ev = Read rd ip \<or> (\<exists>nb. ev = Run nb) \<or> (\<exists>nb. ev = Write wr nb op)"
  by (auto simp: with_body_def write_step_def split: sum.splits option.splits if_splits)

lemma convert_events:
  "ev \<in> set (fst (convert env a h)) \<Longrightarrow>
     ev = Read (readers (rmagic_precode a) (informat (apply_reverse a))) h \<or>
     (\<exists>nb. ev = Run nb) \<or>
     (\<exists>nb. ev = Write (writers (rmagic_precode a) (outformat (apply_reverse a))) nb
                (args_output a)) \<or>
     ev = Close (args_output a) \<or> ev = Close h"
  using with_body_events [of ev env "apply_reverse (rmagic_precode a)"
      "readers (rmagic_precode a) (informat (apply_reverse a))"
      "writers (rmagic_precode a) (outformat (apply_reverse a))" h "args_output a"]
  by (auto simp: convert_def Let_def with_block_def case_prod_beta informat_rmagic
      outformat_rmagic args_output_convert)

lemma cli_body_events:
  "ev \<in> set (fst (cli_body env a)) \<Longrightarrow>
     (\<exists>m. ev = Print m) \<or> ev = Close Stdin \<or>
     (\<exists>opts. ev = Knit (args_input_file a) opts) \<or>
     (\<exists>h. ev \<in> set (fst (convert env a h)))"
  by (auto simp: cli_body_def py_exit_def case_prod_beta
      split: option.splits if_splits sum.splits)

lemma parse_args_events:
  "ev \<in> set (fst (parse_args env a)) \<Longrightarrow> (\<exists>h. ev = Open h) \<or> ev = Print ArgumentError"
  by (auto simp: parse_args_def split: if_splits)

lemma cli_events:
  "ev \<in> set (fst (cli env a)) \<Longrightarrow>
     (\<exists>h. ev = Open h) \<or> (\<exists>m. ev = Print m) \<or> ev = Close Stdin \<or>
     (\<exists>opts. ev = Knit (args_input_file a) opts) \<or>
     (\<exists>h. ev \<in> set (fst (convert env a h)))"
proof -
  assume ev: "ev \<in> set (fst (cli env a))"
  obtain evs r where p: "parse_args env a = (evs, r)"
    by (cases "parse_args env a")
  show ?thesis
  proof (cases r)
    case None
    with ev p show ?thesis
      using parse_args_events [of ev env a] by (auto simp: cli_def)
  next
    case (Some parsed)
    with p have "parsed = a"
      by (auto simp: parse_args_def split: if_splits)
    with ev p Some show ?thesis
      using parse_args_events [of ev env a] cli_body_events [of ev env a]
      by (auto simp: cli_def case_prod_beta)
  qed
qed

lemma cli_read_event:
  "Read rd h \<in> set (fst (cli env a)) \<Longrightarrow>
     rd = readers (rmagic_precode a) (informat (apply_reverse a))"
  using cli_events [of "Read rd h" env a] convert_events [of "Read rd h" env a]
  by auto

lemma cli_write_event:
  "Write wr nb h \<in> set (fst (cli env a)) \<Longrightarrow>
     wr = writers (rmagic_precode a) (outformat (apply_reverse a)) \<and> h = args_output a"
  using cli_events [of "Write wr nb h" env a] convert_events [of "Write wr nb h" env a]
  by auto

subsection \<open>Format detection\<close>

text \<open>
  Claim C2. \<open>ftdetect\<close> answers \<open>Markdown\<close> exactly when the extension that
  \<open>splitext\<close> finds is one of \<^verbatim>\<open>.md .markdown .mkd .mdown .mkdn .Rmd\<close>, \<open>Notebook\<close>
  exactly when it is \<^verbatim>\<open>.ipynb\<close>, and \<open>None\<close> exactly when it is none of the seven
  (an absent extension is the empty string). The comparison is equality of strings,
  so it distinguishes upper and lower case. \<open>ftdetect\<close> is a total function of the
  file name alone: it raises nothing and changes nothing.
\<close>

theorem ftdetect_extension_table:
  "(ftdetect filename = Some Markdown \<longleftrightarrow>
      snd (splitext filename) \<in>
        {''.md'', ''.markdown'', ''.mkd'', ''.mdown'', ''.mkdn'', ''.Rmd''}) \<and>
   (ftdetect filename = Some Notebook \<longleftrightarrow> snd (splitext filename) = ''.ipynb'') \<and>
   (ftdetect filename = None \<longleftrightarrow>
      snd (splitext filename) \<notin>
        {''.md'', ''.markdown'', ''.mkd'', ''.mdown'', ''.mkdn'', ''.Rmd'', ''.ipynb''})"
  by (simp add: ftdetect_def md_exts_def nb_exts_def Let_def)

theorem ftdetect_extension_table_witness:
  "ftdetect ''notes.md'' = Some Markdown \<and>
   ftdetect ''run.1/notes.ipynb'' = Some Notebook \<and>
   ftdetect ''NOTES.MD'' = None \<and>
   ftdetect ''<stdin>'' = None"
proof -
  have md: "snd (splitext ''notes.md'') = ''.md''"
    by (simp add: splitext_def)
  have nb: "snd (splitext ''run.1/notes.ipynb'') = ''.ipynb''"
    by (simp add: splitext_def)
  have up: "snd (splitext ''NOTES.MD'') = ''.MD''"
    by (simp add: splitext_def)
  have no: "snd (splitext ''<stdin>'') = []"
    by (simp add: splitext_def)
  show ?thesis
    using ftdetect_extension_table [of "''notes.md''"]
      ftdetect_extension_table [of "''run.1/notes.ipynb''"]
      ftdetect_extension_table [of "''NOTES.MD''"]
      ftdetect_extension_table [of "''<stdin>''"]
    by (simp add: md nb up no)
qed

text \<open>
  The same table read on file names: a name \<open>dir @ base @ ''.'' @ e\<close>, where
  \<open>dir\<close> is empty or ends with a slash and \<open>base\<close> is a file name with some
  character other than a dot, has the extension \<open>''.'' @ e\<close>; a name without a dot
  has none.
\<close>

lemma ftdetect_file_name:
  assumes "dir = [] \<or> last dir = CHR ''/''"
    and "CHR ''/'' \<notin> set base" and "\<exists>c \<in> set base. c \<noteq> CHR ''.''"
    and "CHR ''/'' \<notin> set e" and "CHR ''.'' \<notin> set e"
  shows "ftdetect (dir @ base @ CHR ''.'' # e) =
           (if e \<in> {''md'', ''markdown'', ''mkd'', ''mdown'', ''mkdn'', ''Rmd''}
            then Some Markdown
            else if e = ''ipynb'' then Some Notebook else None)"
  by (simp add: ftdetect_def splitext_file_name [OF assms] md_exts_def nb_exts_def)

lemma ftdetect_no_extension: "CHR ''.'' \<notin> set p \<Longrightarrow> ftdetect p = None"
  by (simp add: ftdetect_def splitext_no_dot md_exts_def nb_exts_def)

subsection \<open>Format resolution\<close>

text \<open>
  Claim C1. Without \<^verbatim>\<open>--reverse\<close>, the input format is the value of \<^verbatim>\<open>--from\<close> if
  one is given, else what \<open>ftdetect\<close> finds for the name of the input file if it finds
  a format, else \<open>Markdown\<close>; the output format is the value of \<^verbatim>\<open>--to\<close> if one is
  given, else what \<open>ftdetect\<close> finds for the name of the output file, else
  \<open>Notebook\<close>. The two are resolved independently: the input format does not
  change with \<^verbatim>\<open>--to\<close> or the output file, nor the output format with \<^verbatim>\<open>--from\<close> or
  the input file. They are the formats of the reader and of the writer that any run of
  \<open>cli\<close> uses.
\<close>

theorem formats_without_reverse:
  assumes "\<not> args_reverse a"
  shows "informat (apply_reverse a) =
           (case args_informat a of
              Some f \<Rightarrow> f
            | None \<Rightarrow>
                (case ftdetect (handle_name (args_input_file a)) of
                   Some f \<Rightarrow> f
                 | None \<Rightarrow> Markdown)) \<and>
         outformat (apply_reverse a) =
           (case args_outformat a of
              Some f \<Rightarrow> f
            | None \<Rightarrow>
                (case ftdetect (handle_name (args_output a)) of
                   Some f \<Rightarrow> f
                 | None \<Rightarrow> Notebook)) \<and>
         informat (apply_reverse (a\<lparr>args_outformat := t, args_output := op\<rparr>)) =
           informat (apply_reverse a) \<and>
         outformat (apply_reverse (a\<lparr>args_informat := f, args_input_file := ip\<rparr>)) =
           outformat (apply_reverse a) \<and>
         (Read rd h \<in> set (fst (cli env a)) \<longrightarrow>
            reader_format rd = informat (apply_reverse a)) \<and>
         (Write wr nb h' \<in> set (fst (cli env a)) \<longrightarrow>
            writer_format wr = outformat (apply_reverse a))"
  using assms cli_read_event [of rd h env a] cli_write_event [of wr nb h' env a]
  by (auto simp: format_defs reader_format_readers writer_format_writers
      split: option.splits)

theorem formats_without_reverse_witness:
  "\<not> args_reverse (default_args\<lparr>args_input_file := InFile ''notes.md''\<rparr>) \<and>
   informat (apply_reverse (default_args\<lparr>args_input_file := InFile ''notes.md''\<rparr>)) = Markdown \<and>
   outformat (apply_reverse (default_args\<lparr>args_input_file := InFile ''notes.md''\<rparr>)) = Notebook"
proof -
  let ?a = "default_args\<lparr>args_input_file := InFile ''notes.md''\<rparr>"
  have r: "\<not> args_reverse ?a"
    by (simp add: default_args_def)
  have i: "ftdetect (handle_name (args_input_file ?a)) = Some Markdown"
    by (simp add: default_args_def ftdetect_def splitext_def md_exts_def nb_exts_def)
  have o: "ftdetect (handle_name (args_output ?a)) = None"
    by (simp add: default_args_def ftdetect_def splitext_def md_exts_def nb_exts_def)
  have n: "args_informat ?a = None" "args_outformat ?a = None"
    by (simp_all add: default_args_def)
  note t = formats_without_reverse [OF r]
  have "informat (apply_reverse ?a) = Markdown"
    using t [THEN conjunct1] by (simp only: i n option.case)
  moreover have "outformat (apply_reverse ?a) = Notebook"
    using t [THEN conjunct2, THEN conjunct1] by (simp only: o n option.case)
  ultimately show ?thesis
    using r by simp
qed

text \<open>
  Claim C3 says that a notebook input with no \<^verbatim>\<open>--to\<close> and an output name without a
  known extension is written as markdown. The code does not look at the input format
  when it resolves the output format: \<^verbatim>\<open>notedown notes.ipynb\<close> reads a notebook and
  writes a notebook.
\<close>

theorem output_default_counterexample:
  "\<not> args_reverse (default_args\<lparr>args_input_file := InFile ''notes.ipynb''\<rparr>) \<and>
   informat (apply_reverse (default_args\<lparr>args_input_file := InFile ''notes.ipynb''\<rparr>)) = Notebook \<and>
   args_outformat (default_args\<lparr>args_input_file := InFile ''notes.ipynb''\<rparr>) = None \<and>
   ftdetect (handle_name (args_output (default_args\<lparr>args_input_file := InFile ''notes.ipynb''\<rparr>))) = None \<and>
   outformat (apply_reverse (default_args\<lparr>args_input_file := InFile ''notes.ipynb''\<rparr>)) \<noteq> Markdown \<and>
   steps_of (fst (cli demo_env (default_args\<lparr>args_input_file := InFile ''notes.ipynb''\<rparr>))) =
     [ReadStep Notebook, WriteStep Notebook]"
  by (simp add: format_defs run_defs default_args_def demo_env_def)

text \<open>
  Claim C3, amended. Without \<^verbatim>\<open>--reverse\<close>, when no \<^verbatim>\<open>--to\<close> is given and the name
  of the output file has no extension that \<open>ftdetect\<close> knows, the output format is
  \<open>Notebook\<close>, whatever the input format is, and the writer of every run is the
  notebook writer.
\<close>

theorem output_default_is_notebook:
  assumes "\<not> args_reverse a" and "args_outformat a = None"
    and "ftdetect (handle_name (args_output a)) = None"
  shows "outformat (apply_reverse a) = Notebook \<and>
         (Write wr nb h \<in> set (fst (cli env a)) \<longrightarrow> writer_format wr = Notebook)"
  using assms cli_write_event [of wr nb h env a]
  by (auto simp: format_defs writer_format_writers)

theorem output_default_is_notebook_witness:
  "informat (apply_reverse (default_args\<lparr>args_input_file := InFile ''notes.ipynb''\<rparr>)) = Notebook \<and>
   outformat (apply_reverse (default_args\<lparr>args_input_file := InFile ''notes.ipynb''\<rparr>)) = Notebook"
proof -
  let ?a = "default_args\<lparr>args_input_file := InFile ''notes.ipynb''\<rparr>"
  have 1: "\<not> args_reverse ?a" and 2: "args_outformat ?a = None"
    by (simp_all add: default_args_def)
  have 3: "ftdetect (handle_name (args_output ?a)) = None"
    by (simp add: default_args_def ftdetect_def splitext_def md_exts_def nb_exts_def)
  have "informat (apply_reverse ?a) = Notebook"
    by (simp add: format_defs default_args_def ftdetect_def splitext_def md_exts_def nb_exts_def)
  moreover have "outformat (apply_reverse ?a) = Notebook"
    by (rule output_default_is_notebook [OF 1 2 3, THEN conjunct1])
  ultimately show ?thesis
    by simp
qed

text \<open>
  Claim C4. With \<^verbatim>\<open>--reverse\<close> the input format is \<open>Notebook\<close> and the output format is
  \<open>Markdown\<close>, whatever \<^verbatim>\<open>--from\<close>, \<^verbatim>\<open>--to\<close> and the two file names are; every run
  reads with the notebook reader and writes with the markdown writer.
\<close>

theorem reverse_forces_formats:
  assumes "args_reverse a"
  shows "informat (apply_reverse a) = Notebook \<and> outformat (apply_reverse a) = Markdown \<and>
         (Read rd h \<in> set (fst (cli env a)) \<longrightarrow> rd = JSONReader) \<and>
         (Write wr nb h' \<in> set (fst (cli env a)) \<longrightarrow> writer_format wr = Markdown)"
  using assms cli_read_event [of rd h env a] cli_write_event [of wr nb h' env a]
  by (auto simp: format_defs readers_def writer_format_writers)

theorem reverse_forces_formats_witness:
  "args_reverse (default_args\<lparr>args_input_file := InFile ''notes.md'',
      args_output := OutFile ''out.ipynb'', args_informat := Some Markdown,
      args_outformat := Some Notebook, args_reverse := True\<rparr>) \<and>
   informat (apply_reverse (default_args\<lparr>args_input_file := InFile ''notes.md'',
      args_output := OutFile ''out.ipynb'', args_informat := Some Markdown,
      args_outformat := Some Notebook, args_reverse := True\<rparr>)) = Notebook \<and>
   outformat (apply_reverse (default_args\<lparr>args_input_file := InFile ''notes.md'',
      args_output := OutFile ''out.ipynb'', args_informat := Some Markdown,
      args_outformat := Some Notebook, args_reverse := True\<rparr>)) = Markdown"
proof -
  let ?a = "default_args\<lparr>args_input_file := InFile ''notes.md'',
      args_output := OutFile ''out.ipynb'', args_informat := Some Markdown,
      args_outformat := Some Notebook, args_reverse := True\<rparr>"
  have r: "args_reverse ?a"
    by simp
  note t = reverse_forces_formats [OF r]
  show ?thesis
    using r t [THEN conjunct1] t [THEN conjunct2, THEN conjunct1] by blast
qed

subsection \<open>The order of the steps\<close>

lemma distinct_plan: "distinct (plan a)"
  by (simp add: plan_def conversion_plan_def)

lemma prefix_distinct: "prefix xs ys \<Longrightarrow> distinct ys \<Longrightarrow> distinct xs"
  by (auto elim!: prefixE)

lemma cli_body_knit_step:
  assumes "\<not> args_examples a" and "\<not> isatty env (args_input_file a)"
  shows "KnitStep \<in> set (steps_of (fst (cli_body env a))) \<longleftrightarrow> truthy (args_knit a)"
proof (cases "truthy (args_knit a)")
  case True
  then obtain opts where "args_knit a = Some opts" "opts \<noteq> []"
    by (auto simp: truthy_def split: option.splits)
  then show ?thesis
    using assms True
    by (simp add: cli_body_def case_prod_beta split: sum.splits)
next
  case False
  then have c: "cli_body env a = convert env a (args_input_file a)"
    using assms by (simp add: cli_body_def truthy_def split: option.splits)
  have "set (steps_of (fst (convert env a (args_input_file a)))) \<subseteq>
        set (conversion_plan (args_run a) (informat (apply_reverse a))
              (outformat (apply_reverse a)))"
    using convert_steps [of env a "args_input_file a"] by (simp add: set_mono_prefix)
  then have "KnitStep \<notin> set (steps_of (fst (convert env a (args_input_file a))))"
    by (auto simp: conversion_plan_def split: if_splits)
  with False c show ?thesis
    by simp
qed

text \<open>
  What every run does that gets past argument parsing, \<^verbatim>\<open>--examples\<close> and the
  terminal check: the steps taken are an initial segment of \<open>plan\<close>, a step is taken
  only after all earlier ones succeeded, a run that returns has taken the whole plan,
  no step is taken twice, and Knitr is called exactly when the option string of
  \<^verbatim>\<open>--knit\<close> is present and non-empty.
\<close>

lemma conversion_steps_in_order:
  assumes "snd (parse_args env a) = Some a"
    and "\<not> args_examples a" and "\<not> isatty env (args_input_file a)"
  shows "prefix (steps_of (fst (cli env a))) (plan a) \<and>
         (snd (cli env a) = Returned \<longrightarrow> steps_of (fst (cli env a)) = plan a) \<and>
         distinct (steps_of (fst (cli env a))) \<and>
         (KnitStep \<in> set (steps_of (fst (cli env a))) \<longleftrightarrow>
            (\<exists>opts. args_knit a = Some opts \<and> opts \<noteq> []))"
proof -
  have s: "steps_of (fst (cli env a)) = steps_of (fst (cli_body env a))"
    and r: "snd (cli env a) = snd (cli_body env a)"
    by (simp_all add: cli_parsed [OF assms(1)] steps_of_append steps_of_opened)
  have p: "prefix (steps_of (fst (cli env a))) (plan a)"
    and e: "snd (cli env a) = Returned \<longrightarrow> steps_of (fst (cli env a)) = plan a"
    using cli_body_steps [OF assms(2,3)] by (simp_all add: s r)
  have d: "distinct (steps_of (fst (cli env a)))"
    using p distinct_plan by (rule prefix_distinct)
  have k: "KnitStep \<in> set (steps_of (fst (cli env a))) \<longleftrightarrow>
             (\<exists>opts. args_knit a = Some opts \<and> opts \<noteq> [])"
    using cli_body_knit_step [OF assms(2,3)]
    by (simp add: s truthy_def split: option.splits)
  from p e d k show ?thesis
    by blast
qed

lemma conversion_steps_in_order_example:
  "steps_of (fst (cli demo_env
      (default_args\<lparr>args_input_file := InFile ''input.Rmd'', args_knit := Some ''eval=FALSE'',
         args_run := True\<rparr>))) =
     [KnitStep, ReadStep Markdown, RunStep, WriteStep Notebook]"
proof -
  let ?a = "default_args\<lparr>args_input_file := InFile ''input.Rmd'',
    args_knit := Some ''eval=FALSE'', args_run := True\<rparr>"
  have 1: "snd (parse_args demo_env ?a) = Some ?a"
    by (simp add: parse_args_def files_open_def file_arguments_def demo_env_def
        default_args_def)
  have 2: "\<not> args_examples ?a"
    by (simp add: default_args_def)
  have 3: "\<not> isatty demo_env (args_input_file ?a)"
    by (simp add: demo_env_def)
  have 4: "snd (cli demo_env ?a) = Returned"
    by (simp add: run_defs format_defs default_args_def demo_env_def)
  have 5: "plan ?a = [KnitStep, ReadStep Markdown, RunStep, WriteStep Notebook]"
    by (simp add: plan_def conversion_plan_def truthy_def format_defs default_args_def
        ftdetect_def splitext_def md_exts_def nb_exts_def)
  from conversion_steps_in_order [OF 1 2 3] 4 5 show ?thesis
    by simp
qed

text \<open>
  Claim C5 (the code differs). The claim holds for the order of the steps, for their
  number, and for \<^verbatim>\<open>--run\<close> (\<open>conversion_steps_in_order\<close>); it fails for the
  condition on Knitr at one input. The driver tests \<^verbatim>\<open>if args.knit:\<close>, the truth value
  of the option string, where it means to ask whether \<^verbatim>\<open>--knit\<close> was given
  (\<^verbatim>\<open>None\<close> without the flag, \<^verbatim>\<open>'eval=FALSE'\<close> for the bare flag, and the help of
  \<^verbatim>\<open>--knit\<close> says the chunk options are changed by passing a string). With
  \<^verbatim>\<open>--knit ''\<close> knitting is requested with an empty option string, the test is
  false, Knitr is never called, and the input goes to the reader as it is.
\<close>

theorem knit_empty_options_skips_knitr:
  "args_knit (default_args\<lparr>args_input_file := InFile ''input.Rmd'', args_knit := Some []\<rparr>)
     \<noteq> None \<and>
   cli demo_env (default_args\<lparr>args_input_file := InFile ''input.Rmd'', args_knit := Some []\<rparr>) =
     ([Open (InFile ''input.Rmd''),
       Read (MarkdownReader [] True) (InFile ''input.Rmd''),
       Write (JSONWriter False) ''cells'' Stdout,
       Close Stdout, Close (InFile ''input.Rmd'')], Returned)"
  by (simp add: run_defs format_defs default_args_def demo_env_def)

subsection \<open>run without runipy\<close>

lemma run_missing_runipy:
  "\<not> runipy_available env \<Longrightarrow>
     run env notebook =
       Inl (TypeError
         ''exceptions must be old-style classes or derived from BaseException, not str'')"
  by (simp add: run_def)

lemma with_block_ignores_runipy:
  "\<not> args_run a \<Longrightarrow>
     with_block (env\<lparr>runipy_available := b\<rparr>) a rd wr ip op = with_block env a rd wr ip op"
  by (simp add: with_block_def with_body_def write_step_def cong: sum.case_cong)

lemma convert_ignores_runipy:
  "\<not> args_run a \<Longrightarrow> convert (env\<lparr>runipy_available := b\<rparr>) a h = convert env a h"
  by (simp add: convert_def Let_def with_block_ignores_runipy args_run_convert)

lemma cli_without_run_ignores_runipy:
  "\<not> args_run a \<Longrightarrow> cli (env\<lparr>runipy_available := b\<rparr>) a = cli env a"
  by (simp add: cli_def parse_args_def files_open_def cli_body_def convert_ignores_runipy
      Let_def cong: sum.case_cong option.case_cong if_cong)

text \<open>
  Claim C6 (the code differs). With \<^verbatim>\<open>--run\<close> and no runipy installed, \<^verbatim>\<open>run\<close>
  executes \<^verbatim>\<open>raise('You need runipy installed ...')\<close>: the operand is a string, so
  what reaches the caller is Python's \<^verbatim>\<open>TypeError\<close> about the operand, and the
  install hint is in no message. Both files are closed by the \<^verbatim>\<open>with\<close> block. The
  second half of the claim holds (\<open>cli_without_run_ignores_runipy\<close>): without
  \<^verbatim>\<open>--run\<close> the driver never looks for runipy.
\<close>

theorem run_without_runipy_raises_TypeError:
  "run (demo_env\<lparr>runipy_available := False\<rparr>) ''cells'' =
     Inl (TypeError
       ''exceptions must be old-style classes or derived from BaseException, not str'') \<and>
   cli (demo_env\<lparr>runipy_available := False\<rparr>)
     (default_args\<lparr>args_input_file := InFile ''input.md'', args_run := True\<rparr>) =
     ([Open (InFile ''input.md''),
       Read (MarkdownReader [] True) (InFile ''input.md''),
       Run ''cells'',
       Close Stdout, Close (InFile ''input.md'')],
      Raised (TypeError
        ''exceptions must be old-style classes or derived from BaseException, not str''))"
  by (simp add: run_defs format_defs default_args_def demo_env_def)

subsection \<open>Closing the files\<close>

lemma cli_closes_without_knit:
  assumes "snd (parse_args env a) = Some a"
    and "\<not> args_examples a" and "\<not> isatty env (args_input_file a)"
    and "\<not> truthy (args_knit a)"
  shows "closed_handles (fst (cli env a)) = [args_output a, args_input_file a]"
proof -
  have "cli_body env a = convert env a (args_input_file a)"
    using assms(2-4) by (simp add: cli_body_def truthy_def split: option.splits)
  then show ?thesis
    by (simp add: cli_parsed [OF assms(1)] closed_handles_append closed_handles_opened
        convert_closes)
qed

lemma cli_closes_nothing_when_knit_fails:
  assumes "snd (parse_args env a) = Some a"
    and "\<not> args_examples a" and "\<not> isatty env (args_input_file a)"
    and "args_knit a = Some opts" and "opts \<noteq> []"
    and "knitr_knit env (args_input_file a) opts = Inl e"
  shows "closed_handles (fst (cli env a)) = [] \<and> snd (cli env a) = Raised e"
  using assms(2-6)
  by (simp add: cli_parsed [OF assms(1)] closed_handles_append closed_handles_opened
      cli_body_def)

lemma cli_closes_knit_output:
  assumes "snd (parse_args env a) = Some a"
    and "\<not> args_examples a" and "\<not> isatty env (args_input_file a)"
    and "args_knit a = Some opts" and "opts \<noteq> []"
    and "knitr_knit env (args_input_file a) opts = Inr h"
  shows "closed_handles (fst (cli env a)) = [args_output a, h]"
  using assms(2-6)
  by (simp add: cli_parsed [OF assms(1)] closed_handles_append closed_handles_opened
      cli_body_def case_prod_beta convert_closes)

text \<open>
  Claim C7 (the code differs). The \<^verbatim>\<open>with\<close> block closes the stream it reads and the
  output file on every way out of the block (\<open>with_block_closes\<close>), and without
  Knitr these are the two files of the command line (\<open>cli_closes_without_knit\<close>).
  With \<^verbatim>\<open>--knit\<close>, Knitr runs before the block is entered: when it raises, the
  driver closes neither file; when it returns, the block closes Knitr's stream and
  the output file, and the driver never closes the input file of the command line.
\<close>

theorem knit_failure_leaves_handles_open:
  "cli (demo_env\<lparr>knitr_knit := (\<lambda>h opts. Inl (ToolError ''knitr failed''))\<rparr>)
     (default_args\<lparr>args_input_file := InFile ''input.Rmd'',
        args_output := OutFile ''out.ipynb'', args_knit := Some ''eval=FALSE''\<rparr>) =
     ([Open (InFile ''input.Rmd''), Open (OutFile ''out.ipynb''),
       Knit (InFile ''input.Rmd'') ''eval=FALSE''],
      Raised (ToolError ''knitr failed'')) \<and>
   closed_handles (fst (cli demo_env
     (default_args\<lparr>args_input_file := InFile ''input.Rmd'',
        args_output := OutFile ''out.ipynb'', args_knit := Some ''eval=FALSE''\<rparr>))) =
     [OutFile ''out.ipynb'', TempFile ''knitted.md'']"
  by (simp add: run_defs format_defs default_args_def demo_env_def)

subsection \<open>Leaving early\<close>

text \<open>
  Claim C8 says that \<^verbatim>\<open>--examples\<close> prints and exits without opening any input.
  The input argument has \<^verbatim>\<open>type=argparse.FileType('r')\<close>, so a file named on the
  command line is opened by \<^verbatim>\<open>parse_args()\<close>, before \<^verbatim>\<open>args.examples\<close> is looked at;
  and when it cannot be opened, argparse ends the program with status 2 and the
  examples are not printed.
\<close>

theorem examples_opens_input_counterexample:
  "args_examples (default_args\<lparr>args_input_file := InFile ''input.md'', args_examples := True\<rparr>) \<and>
   cli demo_env (default_args\<lparr>args_input_file := InFile ''input.md'', args_examples := True\<rparr>) =
     ([Open (InFile ''input.md''), Print ExamplesText, Close Stdin], Exit 0) \<and>
   opened_handles (fst (cli demo_env
     (default_args\<lparr>args_input_file := InFile ''input.md'', args_examples := True\<rparr>))) =
     [InFile ''input.md''] \<and>
   cli (demo_env\<lparr>can_open := (\<lambda>h. False)\<rparr>)
     (default_args\<lparr>args_input_file := InFile ''input.md'', args_examples := True\<rparr>) =
     ([Print ArgumentError], Exit 2)"
  by (simp add: run_defs default_args_def demo_env_def)

text \<open>
  Claim C8, amended. Argument parsing opens the files named on the command line, in
  the order of the command line. If one of them cannot be opened, the program ends
  with argparse's error and status 2, and prints neither the examples nor the help.
  Otherwise: with \<^verbatim>\<open>--examples\<close> the program prints the examples and exits with
  status 0; without \<^verbatim>\<open>--examples\<close>, with no input file and a terminal as standard
  input, it prints the help and exits with status 0. In all three cases nothing is
  read, knitted, run or written.
\<close>

theorem examples_and_help_exit:
  "(files_open env a \<and> args_examples a \<longrightarrow>
      cli env a =
        (map Open (file_arguments a) @ [Print ExamplesText, Close Stdin], Exit 0)) \<and>
   (files_open env a \<and> \<not> args_examples a \<and> args_input_file a = Stdin \<and> isatty env Stdin \<longrightarrow>
      cli env a = (map Open (file_arguments a) @ [Print HelpText, Close Stdin], Exit 0)) \<and>
   (\<not> files_open env a \<longrightarrow>
      cli env a =
        (map Open (takeWhile (can_open env) (file_arguments a)) @ [Print ArgumentError],
         Exit 2)) \<and>
   (\<not> files_open env a \<or> args_examples a \<or> isatty env (args_input_file a) \<longrightarrow>
      steps_of (fst (cli env a)) = [])"
proof -
  have ok: "cli env a =
      (map Open (file_arguments a) @ fst (cli_body env a), snd (cli_body env a))"
    if "files_open env a"
    using that by (simp add: cli_parsed parse_args_ok)
  have 1: "files_open env a \<and> args_examples a \<longrightarrow>
      cli env a =
        (map Open (file_arguments a) @ [Print ExamplesText, Close Stdin], Exit 0)"
    by (simp add: ok cli_body_def py_exit_def)
  have 2: "files_open env a \<and> \<not> args_examples a \<and> args_input_file a = Stdin \<and>
      isatty env Stdin \<longrightarrow>
      cli env a = (map Open (file_arguments a) @ [Print HelpText, Close Stdin], Exit 0)"
    by (simp add: ok cli_body_def py_exit_def)
  have 3: "\<not> files_open env a \<longrightarrow>
      cli env a =
        (map Open (takeWhile (can_open env) (file_arguments a)) @ [Print ArgumentError],
         Exit 2)"
    by (simp add: cli_not_parsed)
  have 4: "\<not> files_open env a \<or> args_examples a \<or> isatty env (args_input_file a) \<longrightarrow>
      steps_of (fst (cli env a)) = []"
  proof (cases "files_open env a")
    case True
    then show ?thesis
      by (auto simp: ok cli_body_def py_exit_def steps_of_append steps_of_opened)
  next
    case False
    then show ?thesis
      by (simp add: cli_not_parsed steps_of_append steps_of_opened)
  qed
  from 1 2 3 4 show ?thesis
    by blast
qed

theorem examples_and_help_exit_witness:
  "cli demo_env
     (default_args\<lparr>args_input_file := InFile ''input.md'', args_output := OutFile ''out.ipynb'',
        args_examples := True, args_output_first := True\<rparr>) =
     ([Open (OutFile ''out.ipynb''), Open (InFile ''input.md''), Print ExamplesText,
       Close Stdin], Exit 0) \<and>
   cli (demo_env\<lparr>isatty := (\<lambda>h. h = Stdin)\<rparr>) default_args =
     ([Print HelpText, Close Stdin], Exit 0) \<and>
   cli (demo_env\<lparr>can_open := (\<lambda>h. h \<noteq> InFile ''input.md'')\<rparr>)
     (default_args\<lparr>args_input_file := InFile ''input.md'', args_output := OutFile ''out.ipynb'',
        args_examples := True, args_output_first := True\<rparr>) =
     ([Open (OutFile ''out.ipynb''), Print ArgumentError], Exit 2)"
proof -
  let ?a = "default_args\<lparr>args_input_file := InFile ''input.md'',
    args_output := OutFile ''out.ipynb'', args_examples := True, args_output_first := True\<rparr>"
  let ?tty = "demo_env\<lparr>isatty := (\<lambda>h. h = Stdin)\<rparr>"
  let ?missing = "demo_env\<lparr>can_open := (\<lambda>h. h \<noteq> InFile ''input.md'')\<rparr>"
  have fa: "file_arguments ?a = [OutFile ''out.ipynb'', InFile ''input.md'']"
    and fd: "file_arguments default_args = []"
    by (simp_all add: file_arguments_def default_args_def)
  have e: "files_open demo_env ?a \<and> args_examples ?a"
    by (simp add: files_open_def fa demo_env_def)
  have h: "files_open ?tty default_args \<and> \<not> args_examples default_args \<and>
           args_input_file default_args = Stdin \<and> isatty ?tty Stdin"
    by (simp add: files_open_def fd) (simp add: default_args_def)
  have m: "\<not> files_open ?missing ?a"
    by (simp add: files_open_def fa)
  have "cli demo_env ?a =
          (map Open (file_arguments ?a) @ [Print ExamplesText, Close Stdin], Exit 0)"
    using examples_and_help_exit [of demo_env ?a, THEN conjunct1] e by blast
  moreover have "cli ?tty default_args =
          (map Open (file_arguments default_args) @ [Print HelpText, Close Stdin], Exit 0)"
    using examples_and_help_exit [of ?tty default_args, THEN conjunct2, THEN conjunct1] h
    by blast
  moreover have "cli ?missing ?a =
          (map Open (takeWhile (can_open ?missing) (file_arguments ?a)) @
             [Print ArgumentError], Exit 2)"
    using examples_and_help_exit [of ?missing ?a, THEN conjunct2, THEN conjunct2,
        THEN conjunct1] m
    by blast
  ultimately show ?thesis
    by (simp add: fa fd)
qed

subsection \<open>Precode\<close>

lemma with_block_run_only:
  "args_run a = args_run b \<Longrightarrow>
     with_block env a rd wr ip op = with_block env b rd wr ip op"
  by (simp add: with_block_def with_body_def cong: sum.case_cong)

text \<open>
  Claim C9. With \<^verbatim>\<open>--rmagic\<close>, the string \<^verbatim>\<open>%load_ext rmagic\<close> is appended to the end
  of \<^verbatim>\<open>args.precode\<close> before the dictionary of readers is built; the whole run is
  the run of the same command line without \<^verbatim>\<open>--rmagic\<close> and with that string as a
  last \<^verbatim>\<open>--precode\<close> string; and a markdown reader that reads in the run was built
  with the precode list so extended.
\<close>

theorem rmagic_appends_precode:
  assumes "args_rmagic a"
  shows "args_precode (rmagic_precode a) = args_precode a @ [''%load_ext rmagic''] \<and>
         cli env a =
           cli env (a\<lparr>args_rmagic := False,
                      args_precode := args_precode a @ [''%load_ext rmagic'']\<rparr>) \<and>
         (Read rd h \<in> set (fst (cli env a)) \<and> reader_format rd = Markdown \<longrightarrow>
            rd = MarkdownReader (py_join [CHR 0x0A] (args_precode a @ [''%load_ext rmagic'']))
                   (args_magic a))"
proof -
  let ?b = "a\<lparr>args_rmagic := False, args_precode := args_precode a @ [''%load_ext rmagic'']\<rparr>"
  have 1: "args_precode (rmagic_precode a) = args_precode a @ [''%load_ext rmagic'']"
    using assms by (simp add: rmagic_precode_def)
  have b: "rmagic_precode ?b = ?b"
    by (simp add: rmagic_precode_def)
  have rd: "readers (rmagic_precode a) f = readers ?b f" for f
    using assms by (simp add: readers_def rmagic_precode_def split: format.splits)
  have wr: "writers (rmagic_precode a) f = writers ?b f" for f
    using assms
    by (simp add: writers_def template_file_def rmagic_precode_def split: format.splits)
  have fi: "informat (apply_reverse (rmagic_precode a)) = informat (apply_reverse ?b)"
    and fo: "outformat (apply_reverse (rmagic_precode a)) = outformat (apply_reverse ?b)"
    and ou: "args_output (apply_reverse (rmagic_precode a)) = args_output (apply_reverse ?b)"
    and ru: "args_run (apply_reverse (rmagic_precode a)) = args_run (apply_reverse ?b)"
    by (simp_all add: informat_def outformat_def apply_reverse_def rmagic_precode_def)
  have c: "convert env a h' = convert env ?b h'" for h'
    unfolding convert_def Let_def b rd wr fi fo ou
    by (rule with_block_run_only [OF ru])
  have 2: "cli env a = cli env ?b"
    by (simp add: cli_def parse_args_def files_open_def file_arguments_def cli_body_def c
        Let_def cong: sum.case_cong option.case_cong if_cong)
  have 3: "Read rd h \<in> set (fst (cli env a)) \<and> reader_format rd = Markdown \<longrightarrow>
            rd = MarkdownReader (py_join [CHR 0x0A] (args_precode a @ [''%load_ext rmagic'']))
                   (args_magic a)"
  proof (intro impI, elim conjE)
    assume r: "Read rd h \<in> set (fst (cli env a))" and m: "reader_format rd = Markdown"
    have rd: "rd = readers (rmagic_precode a) (informat (apply_reverse a))"
      using r by (rule cli_read_event)
    with m have "informat (apply_reverse a) = Markdown"
      by (simp add: reader_format_readers)
    with rd 1 assms show
      "rd = MarkdownReader (py_join [CHR 0x0A] (args_precode a @ [''%load_ext rmagic'']))
              (args_magic a)"
      by (simp add: readers_def rmagic_precode_def)
  qed
  from 1 2 3 show ?thesis
    by blast
qed

theorem rmagic_appends_precode_witness:
  "args_rmagic (default_args\<lparr>args_precode := [''import numpy as np''], args_rmagic := True\<rparr>) \<and>
   args_precode (rmagic_precode
     (default_args\<lparr>args_precode := [''import numpy as np''], args_rmagic := True\<rparr>)) =
     [''import numpy as np'', ''%load_ext rmagic''] \<and>
   cli demo_env (default_args\<lparr>args_precode := [''import numpy as np''], args_rmagic := True\<rparr>) =
     ([Read (MarkdownReader ''import numpy as np\<newline>%load_ext rmagic'' True) Stdin,
       Write (JSONWriter False) ''cells'' Stdout, Close Stdout, Close Stdin], Returned)"
proof -
  let ?a = "default_args\<lparr>args_precode := [''import numpy as np''], args_rmagic := True\<rparr>"
  have r: "args_rmagic ?a"
    by simp
  note t = rmagic_appends_precode [OF r]
  have 1: "args_precode (rmagic_precode ?a) = [''import numpy as np'', ''%load_ext rmagic'']"
    using t [THEN conjunct1] by (simp add: default_args_def)
  have "cli demo_env ?a =
          cli demo_env (?a\<lparr>args_rmagic := False,
            args_precode := args_precode ?a @ [''%load_ext rmagic'']\<rparr>)"
    by (rule t [THEN conjunct2, THEN conjunct1])
  also have "\<dots> =
     ([Read (MarkdownReader ''import numpy as np\<newline>%load_ext rmagic'' True) Stdin,
       Write (JSONWriter False) ''cells'' Stdout, Close Stdout, Close Stdin], Returned)"
    by (simp add: run_defs format_defs default_args_def demo_env_def)
  finally show ?thesis
    using r 1 by simp
qed



end
